theory Spec2Isabelle
  imports Main "HOL-Library.Word"
begin

section \<open>JavaScript values read and written by server.js\<close>

text \<open>
  A JavaScript string is a sequence of UTF-16 code units; \<open>text.length\<close> counts them.
  The text of a WebSocket frame and the text of a file are kept as such sequences.
  \<open>js_lit\<close> is a string literal of the source (ASCII) as code units.
\<close>

type_synonym js_text = "16 word list"

definition js_lit :: "string \<Rightarrow> js_text" where
  "js_lit s = map of_char s"

text \<open>
  The values \<open>JSON.parse\<close> returns and \<open>JSON.stringify\<close> accepts. \<open>undefined\<close> is
  \<open>None\<close> of \<open>jsval option\<close>. Numbers are never inspected by the server; the ones it
  writes (\<open>text.length\<close>) are integers. Property names and string values are kept as
  HOL strings.
\<close>

datatype jsval =
    JNull
  | JBool bool
  | JNum int
  | JStr string
  | JArr "jsval list"
  | JObj "(string \<times> jsval) list"

text \<open>
  \<open>v.k\<close> for a value that is neither \<open>null\<close> nor \<open>undefined\<close>, for the property names
  the server reads (\<open>type\<close>, \<open>payload\<close>, \<open>pages\<close>, \<open>questionRows\<close>, \<open>elements\<close>,
  \<open>questionText\<close>): none of them is an index or a property of the prototypes of
  strings, numbers, booleans or arrays, so only an object can hold one.
\<close>

fun get_prop :: "jsval \<Rightarrow> string \<Rightarrow> jsval option" where
  "get_prop (JObj kvs) k = map_of kvs k"
| "get_prop v k = None"

text \<open>\<open>v[0]\<close> for a value that is neither \<open>null\<close> nor \<open>undefined\<close>.\<close>

fun index0 :: "jsval \<Rightarrow> jsval option" where
  "index0 (JArr xs) = (case xs of [] \<Rightarrow> None | x # _ \<Rightarrow> Some x)"
| "index0 (JObj kvs) = map_of kvs ''0''"
| "index0 (JStr s) = (case s of [] \<Rightarrow> None | c # _ \<Rightarrow> Some (JStr [c]))"
| "index0 v = None"

text \<open>Optional chaining: \<open>a?.k\<close> and \<open>a?.[0]\<close> are \<open>undefined\<close> when \<open>a\<close> is nullish.\<close>

definition opt_prop :: "jsval option \<Rightarrow> string \<Rightarrow> jsval option" where
  "opt_prop a k = (case a of None \<Rightarrow> None | Some JNull \<Rightarrow> None | Some v \<Rightarrow> get_prop v k)"

definition opt_index0 :: "jsval option \<Rightarrow> jsval option" where
  "opt_index0 a = (case a of None \<Rightarrow> None | Some JNull \<Rightarrow> None | Some v \<Rightarrow> index0 v)"

text \<open>
  \<^verbatim>\<open>const qText = (d) => {
    try { return d?.pages?.[0]?.questionRows?.[0]?.elements?.[0]?.questionText ?? "(missing)"; }
    catch { return "(error)"; }
  };\<close>
  On plain data no step of the chain raises, so the \<open>catch\<close> is not reached.
\<close>

definition qText :: "jsval \<Rightarrow> jsval" where
  "qText d =
     (case opt_prop (opt_index0 (opt_prop (opt_index0 (opt_prop (opt_index0
              (opt_prop (Some d) ''pages'')) ''questionRows'')) ''elements'')) ''questionText'' of
        None \<Rightarrow> JStr ''(missing)''
      | Some JNull \<Rightarrow> JStr ''(missing)''
      | Some v \<Rightarrow> v)"

text \<open>JavaScript truthiness of a parsed JSON value, for \<open>msg || {}\<close>.\<close>

fun falsy :: "jsval \<Rightarrow> bool" where
  "falsy JNull = True"
| "falsy (JBool b) = (\<not> b)"
| "falsy (JNum n) = (n = 0)"
| "falsy (JStr s) = (s = [])"
| "falsy v = False"

text \<open>
  \<^verbatim>\<open>const { type, payload } = msg || {};\<close>
  \<open>msg_field msg k\<close> is the field \<open>k\<close> that the destructuring reads.
\<close>

definition msg_field :: "jsval \<Rightarrow> string \<Rightarrow> jsval option" where
  "msg_field msg k = get_prop (if falsy msg then JObj [] else msg) k"

section \<open>Connections, files, events\<close>

datatype ready_state = CONNECTING | OPEN | CLOSING | CLOSED

text \<open>
  A WebSocket of \<open>wss.clients\<close>. \<open>cid\<close> is the \<open>id\<close> the connection handler gave it
  and stands for the identity of the object.
\<close>

record conn =
  cid :: nat
  readyState :: ready_state

text \<open>The \<open>data\<close> of a message event: a \<open>Buffer\<close>, or something \<open>String(data)\<close> turns into text.\<close>

datatype ws_data = Buffer "8 word list" | NotBuffer js_text

text \<open>
  A file on disk: absent, present but failing to be read, or present with its text.
\<close>

datatype disk_file = Missing | Unreadable | Content js_text

text \<open>
  What a handler does to the outside, in the order it does it. \<open>WsSend c m ok\<close> is a
  call \<open>c.send(JSON.stringify(m), { binary: false })\<close>; \<open>ok\<close> is False when the call
  raised. \<open>FsWrite t ok\<close> is a call \<open>fs.writeFileSync(SNAPSHOT_JSON, t)\<close>. Console
  output is kept by the fixed part of its text.
\<close>

datatype event =
    ConsoleLog string
  | ConsoleError string
  | FsWrite js_text bool
  | WsSend conn jsval bool

fun is_effect :: "event \<Rightarrow> bool" where
  "is_effect (FsWrite t ok) = True"
| "is_effect (WsSend c m ok) = True"
| "is_effect e = False"

definition effects :: "event list \<Rightarrow> event list" where
  "effects evs = filter is_effect evs"

text \<open>The messages of type \<open>t\<close> that a run handed to \<open>send\<close>, with the receiver.\<close>

fun sends_of_type :: "string \<Rightarrow> event list \<Rightarrow> (conn \<times> jsval) list" where
  "sends_of_type t [] = []"
| "sends_of_type t (WsSend c m ok # evs) =
     (if get_prop m ''type'' = Some (JStr t) then (c, m) # sends_of_type t evs
      else sends_of_type t evs)"
| "sends_of_type t (e # evs) = sends_of_type t evs"

section \<open>The libraries the server calls\<close>

text \<open>
  The server calls \<open>JSON\<close>, \<open>Buffer\<close>, \<open>fs\<close>, the \<open>ws\<close> package and Automerge 0.14.
  None of them is part of the repository, so their behaviour is a parameter. A call
  that may raise returns \<open>None\<close>, or comes with a predicate that says when it raises:
  \<open>JSON.parse\<close>, \<open>Automerge.from\<close>, \<open>Automerge.load\<close>, \<open>Automerge.merge\<close>, \<open>send\<close> and
  \<open>writeFileSync\<close>. \<open>Automerge.save\<close> and \<open>JSON.stringify\<close> are total. \<open>doc_value\<close> is the
  document read as the plain object that \<open>qText\<close> and \<open>JSON.stringify\<close> see.

  \<open>fs_write_fails f t\<close> is \<open>None\<close> when \<open>writeFileSync\<close> of the text \<open>t\<close> over the file \<open>f\<close>
  returns; the file then holds \<open>t\<close>. It is \<open>Some f'\<close> when the call raises, and \<open>f'\<close> is the
  file it leaves behind: \<open>f\<close> itself when the file could not be opened, an empty or
  partly written file when it was created or truncated before the error.
\<close>

record 'd externals =
  JSON_parse :: "js_text \<Rightarrow> jsval option"
  JSON_stringify :: "jsval \<Rightarrow> js_text"
  Buffer_toString :: "8 word list \<Rightarrow> js_text"
  Buffer_byteLength :: "js_text \<Rightarrow> nat"
  Automerge_from :: "jsval \<Rightarrow> 'd option"
  Automerge_save :: "'d \<Rightarrow> string"
  Automerge_load :: "jsval option \<Rightarrow> 'd option"
  Automerge_merge :: "'d \<Rightarrow> 'd \<Rightarrow> 'd option"
  doc_value :: "'d \<Rightarrow> jsval"
  ws_send_throws :: "conn \<Rightarrow> jsval \<Rightarrow> bool"
  fs_write_fails :: "disk_file \<Rightarrow> js_text \<Rightarrow> disk_file option"

section \<open>Server state, persistJson, loadInitial\<close>

text \<open>
  \<open>doc\<close> is the module variable \<open>doc\<close>, \<open>snapshot\<close> the file manifest.json,
  \<open>clients\<close> the set \<open>wss.clients\<close> in its iteration order.
\<close>

record 'd server =
  doc :: 'd
  snapshot :: disk_file
  clients :: "conn list"

text \<open>
  \<^verbatim>\<open>function persistJson() {
    try {
      fs.writeFileSync(SNAPSHOT_JSON, JSON.stringify(doc, null, 2));
      log(`[persist] manifest.json saved; questionText="${qText(doc)}"`);
    } catch (e) {
      console.error(`[${ts()}] [persist] write error:`, e);
    }
  }\<close>
  A write that raises leaves the file in the state the library reports. \<open>qText\<close>
  returns plain data, and a template literal turns plain data into text without
  raising, so the log line after the write is a plain event.
\<close>

definition persistJson :: "'d externals \<Rightarrow> 'd server \<Rightarrow> 'd server \<times> event list" where
  "persistJson E s =
     (let content = JSON_stringify E (doc_value E (doc s)) in
      case fs_write_fails E (snapshot s) content of
        Some left \<Rightarrow>
          (s\<lparr>snapshot := left\<rparr>,
           [FsWrite content False, ConsoleError ''[persist] write error:''])
      | None \<Rightarrow>
          (s\<lparr>snapshot := Content content\<rparr>,
           [FsWrite content True, ConsoleLog ''[persist] manifest.json saved'']))"

definition empty_shape :: jsval where
  "empty_shape = JObj
     [(''pages'', JArr []), (''tiles'', JArr []), (''merges'', JArr []), (''actions'', JArr []),
      (''databases'', JArr []), (''connections'', JArr []),
      (''styles'', JObj [(''theme'', JObj [])])]"

text \<open>An exception that no \<open>try\<close> of the source catches.\<close>

datatype uncaught = Uncaught

text \<open>
  The \<open>try\<close> block of \<open>loadInitial\<close>:
  \<open>JSON.parse(fs.readFileSync(SNAPSHOT_JSON, "utf8"))\<close> and \<open>Automerge.from(seed)\<close>.
\<close>

definition load_seed :: "'d externals \<Rightarrow> disk_file \<Rightarrow> 'd option" where
  "load_seed E f =
     (case f of
        Content t \<Rightarrow>
          (case JSON_parse E t of
             None \<Rightarrow> None
           | Some seed \<Rightarrow> Automerge_from E seed)
      | _ \<Rightarrow> None)"

text \<open>
  The two fallback branches of \<open>loadInitial\<close>: \<open>doc = Automerge.from({...})\<close> with the
  fixed skeleton, outside any \<open>try\<close>, then \<open>persistJson()\<close>.
\<close>

definition start_empty ::
  "'d externals \<Rightarrow> disk_file \<Rightarrow> event list \<Rightarrow> uncaught + ('d server \<times> event list)" where
  "start_empty E f logged =
     (case Automerge_from E empty_shape of
        None \<Rightarrow> Inl Uncaught
      | Some d \<Rightarrow>
          (let (s, evs) = persistJson E \<lparr>doc = d, snapshot = f, clients = []\<rparr>
           in Inr (s, logged @ evs)))"

text \<open>
  \<open>loadInitial()\<close>, run once at startup on the file found on disk; no client is
  connected yet.
\<close>

definition loadInitial :: "'d externals \<Rightarrow> disk_file \<Rightarrow> uncaught + ('d server \<times> event list)" where
  "loadInitial E f =
     (if f \<noteq> Missing then
        (case load_seed E f of
           Some d \<Rightarrow>
             Inr (\<lparr>doc = d, snapshot = f, clients = []\<rparr>,
                  [ConsoleLog ''[load] found manifest.json'', ConsoleLog ''[load] loaded''])
         | None \<Rightarrow>
             start_empty E f
               [ConsoleLog ''[load] found manifest.json'',
                ConsoleError ''[load] parse error; starting empty:''])
      else start_empty E f [ConsoleLog ''[load] no manifest.json; starting empty''])"

section \<open>The HTTP handler\<close>

datatype header_value = HStr string | HNum nat

record http_request =
  req_method :: string
  req_url :: "string option"

record http_response =
  status :: nat
  headers :: "(string \<times> header_value) list"
  body :: js_text

definition no_cache_headers :: "(string \<times> header_value) list" where
  "no_cache_headers =
     [(''Content-Type'', HStr ''text/html; charset=utf-8''),
      (''Cache-Control'', HStr ''no-store, no-cache, must-revalidate, proxy-revalidate''),
      (''Pragma'', HStr ''no-cache''),
      (''Expires'', HStr ''0'')]"

text \<open>\<^verbatim>\<open>const pathname = (req.url || "/").split("?")[0];\<close>\<close>

definition pathname :: "http_request \<Rightarrow> string" where
  "pathname req =
     takeWhile (\<lambda>c. c \<noteq> CHR ''?'')
       (case req_url req of None \<Rightarrow> ''/'' | Some u \<Rightarrow> if u = [] then ''/'' else u)"

text \<open>
  The request listener of \<open>http.createServer\<close>; the second argument is the file
  client.html. The result is what \<open>res.writeHead\<close> and \<open>res.end\<close> are given; the
  \<open>[http]\<close> console line is left out. \<open>req.method\<close> is never read.
  \<open>fs.readFileSync\<close> is called outside any \<open>try\<close>.
\<close>

definition http_handler ::
  "'d externals \<Rightarrow> disk_file \<Rightarrow> http_request \<Rightarrow> uncaught + http_response" where
  "http_handler E client_html req =
     (if pathname req = ''/'' \<or> pathname req = ''/client.html'' then
        (case client_html of
           Missing \<Rightarrow>
             Inr \<lparr>status = 200, headers = no_cache_headers,
                  body = js_lit ''Place client.html next to server.js (server is running).''\<rparr>
         | Unreadable \<Rightarrow> Inl Uncaught
         | Content html \<Rightarrow>
             Inr \<lparr>status = 200,
                  headers = no_cache_headers @ [(''Content-Length'', HNum (Buffer_byteLength E html))],
                  body = html\<rparr>)
      else
        Inr \<lparr>status = 404, headers = [(''Cache-Control'', HStr ''no-store'')],
             body = js_lit ''Not found''\<rparr>)"

section \<open>The WebSocket message handler\<close>

definition full_msg :: "string \<Rightarrow> jsval" where
  "full_msg serial = JObj [(''type'', JStr ''full''), (''payload'', JStr serial)]"

definition debug_echo_msg :: "nat \<Rightarrow> jsval" where
  "debug_echo_msg n = JObj [(''type'', JStr ''debug_echo''), (''bytes'', JNum (int n))]"

definition persisted_msg :: "string \<Rightarrow> jsval \<Rightarrow> jsval" where
  "persisted_msg at q =
     JObj [(''type'', JStr ''persisted''),
           (''payload'', JObj [(''at'', JStr at), (''questionText'', q)])]"

text \<open>
  \<^verbatim>\<open>try { ws.send(JSON.stringify(m), { binary: false }); <log on success> }
  catch (e) { console.error(<failed>, e); }\<close>
\<close>

definition try_send ::
  "'d externals \<Rightarrow> conn \<Rightarrow> jsval \<Rightarrow> event list \<Rightarrow> string \<Rightarrow> event list" where
  "try_send E c m sent_log failed =
     (if ws_send_throws E c m then [WsSend c m False, ConsoleError failed]
      else WsSend c m True # sent_log)"

text \<open>
  \<^verbatim>\<open>let sent = 0;
  wss.clients.forEach(c => {
    if (c.readyState === WebSocket.OPEN) { c.send(outMsg, { binary: false }); sent++; }
  });\<close>
  The result is the calls made and the final \<open>sent\<close>, or \<open>None\<close> when a \<open>send\<close> raised:
  the exception leaves \<open>forEach\<close>, so the connections after it are not visited.
\<close>

fun broadcast_loop ::
  "'d externals \<Rightarrow> jsval \<Rightarrow> conn list \<Rightarrow> nat \<Rightarrow> event list \<times> nat option" where
  "broadcast_loop E outMsg [] sent = ([], Some sent)"
| "broadcast_loop E outMsg (c # cs) sent =
     (if readyState c = OPEN then
        (if ws_send_throws E c outMsg then ([WsSend c outMsg False], None)
         else (let (evs, r) = broadcast_loop E outMsg cs (sent + 1)
               in (WsSend c outMsg True # evs, r)))
      else broadcast_loop E outMsg cs sent)"

text \<open>
  Step 5 of the \<open>full\<close> branch (lines 195 to 205): the \<open>try\<close> around the loop and its
  \<open>catch\<close>.
\<close>

definition broadcast :: "'d externals \<Rightarrow> conn list \<Rightarrow> jsval \<Rightarrow> event list" where
  "broadcast E cs outMsg =
     (case broadcast_loop E outMsg cs 0 of
        (evs, Some sent) \<Rightarrow> evs @ [ConsoleLog ''[broadcast] sent to clients'']
      | (evs, None) \<Rightarrow> evs @ [ConsoleError ''[broadcast] failed:''])"

text \<open>\<^verbatim>\<open>const text = isBuf ? data.toString("utf8") : String(data);\<close>\<close>

definition frame_text :: "'d externals \<Rightarrow> ws_data \<Rightarrow> js_text" where
  "frame_text E data = (case data of Buffer b \<Rightarrow> Buffer_toString E b | NotBuffer t \<Rightarrow> t)"

text \<open>The first lines of the handler: the \<open>[recv]\<close> log and the \<open>debug_echo\<close>.\<close>

definition recv_echo :: "'d externals \<Rightarrow> conn \<Rightarrow> js_text \<Rightarrow> event list" where
  "recv_echo E ws text =
     ConsoleLog ''[recv]'' # try_send E ws (debug_echo_msg (length text)) [] ''[debug_echo] failed:''"

text \<open>
  A run of the handler that an exception ended: no \<open>try\<close> caught it, and it left the
  handler after the events listed.
\<close>

datatype aborted = Aborted "event list"

text \<open>
  \<open>ws.on("message", (data) => ...)\<close> for the connection \<open>ws\<close>. \<open>now\<close> is what
  \<open>new Date().toISOString()\<close> returns when the acknowledgment is built.

  \<open>Automerge.merge\<close> at line 175 is called outside any \<open>try\<close>: when it raises, the
  assignment to \<open>doc\<close> does not happen and the exception leaves the handler, so nothing
  is persisted, acknowledged or broadcast. The \<open>[merge]\<close> line of 177 is built from
  three results of \<open>qText\<close>, plain data that a template literal turns into text
  without raising.
\<close>

definition on_message ::
  "'d externals \<Rightarrow> string \<Rightarrow> 'd server \<Rightarrow> conn \<Rightarrow> ws_data
     \<Rightarrow> aborted + ('d server \<times> event list)" where
  "on_message E now s ws data =
     (let text = frame_text E data;
          pre = recv_echo E ws text
      in case JSON_parse E text of
           None \<Rightarrow> Inr (s, pre @ [ConsoleError ''[recv] invalid JSON''])
         | Some msg \<Rightarrow>
             (let type = msg_field msg ''type'';
                  payload = msg_field msg ''payload''
              in if type = Some (JStr ''hello'') then
                   Inr (s, pre @ try_send E ws (full_msg (Automerge_save E (doc s)))
                                   [ConsoleLog ''[hello] FULL sent on hello''] ''[hello] failed:'')
                 else if type \<noteq> Some (JStr ''full'') then
                   Inr (s, pre @ [ConsoleLog ''[ws] ignoring msg type:''])
                 else
                   (case Automerge_load E payload of
                      None \<Rightarrow> Inr (s, pre @ [ConsoleError ''[recv] load(string) failed:''])
                    | Some incomingDoc \<Rightarrow>
                        (case Automerge_merge E (doc s) incomingDoc of
                           None \<Rightarrow> Inl (Aborted pre)
                         | Some merged \<Rightarrow>
                             (let s1 = s\<lparr>doc := merged\<rparr>;
                                  (s2, persist_evs) = persistJson E s1;
                                  ack = persisted_msg now (qText (doc_value E (doc s2)))
                              in Inr (s2,
                                   pre @ [ConsoleLog ''[merge]''] @ persist_evs
                                   @ try_send E ws ack
                                       [ConsoleLog ''[ack] persisted OK''] ''[ack] failed:''
                                   @ broadcast E (clients s2)
                                       (full_msg (Automerge_save E (doc s2)))))))))"

text \<open>The events of a run, whether it returned or was ended by an exception.\<close>

definition run_events :: "aborted + ('d server \<times> event list) \<Rightarrow> event list" where
  "run_events r = (case r of Inl (Aborted evs) \<Rightarrow> evs | Inr (s, evs) \<Rightarrow> evs)"

section \<open>A small instance of the libraries\<close>

text \<open>
  To run the model on concrete inputs the libraries are instantiated with two documents:
  \<open>DocE\<close>, the fixed skeleton, and \<open>DocA\<close>, a document whose first question text is the
  number 42. \<open>DocA\<close> contains every edit of \<open>DocE\<close>, so merging is the maximum and never
  raises. A saved document is the one-letter string \<open>E\<close> or \<open>A\<close>. The JSON parser knows
  three frames and rejects every other text, among them the empty text and the text of
  one opening brace. Sending to the connection with id 9 raises. Every write succeeds.
\<close>

datatype demo_doc = DocE | DocA

definition docA_value :: jsval where
  "docA_value = JObj
     [(''pages'', JArr [JObj [(''questionRows'', JArr [JObj [(''elements'',
        JArr [JObj [(''questionText'', JNum 42)]])]])]])]"

fun demo_value :: "demo_doc \<Rightarrow> jsval" where
  "demo_value DocE = empty_shape"
| "demo_value DocA = docA_value"

fun demo_save :: "demo_doc \<Rightarrow> string" where
  "demo_save DocE = ''E''"
| "demo_save DocA = ''A''"

definition demo_load :: "jsval option \<Rightarrow> demo_doc option" where
  "demo_load p =
     (if p = Some (JStr ''E'') then Some DocE
      else if p = Some (JStr ''A'') then Some DocA
      else None)"

definition demo_from :: "jsval \<Rightarrow> demo_doc option" where
  "demo_from v =
     (if v = empty_shape then Some DocE
      else if v = docA_value then Some DocA
      else None)"

fun demo_merge :: "demo_doc \<Rightarrow> demo_doc \<Rightarrow> demo_doc option" where
  "demo_merge DocE DocE = Some DocE"
| "demo_merge l r = Some DocA"

definition hello_text :: js_text where
  \<open>hello_text = js_lit ''{"type":"hello"}''\<close>

definition full_A_text :: js_text where
  \<open>full_A_text = js_lit ''{"type":"full","payload":"A"}''\<close>

definition full_bad_text :: js_text where
  \<open>full_bad_text = js_lit ''{"type":"full","payload":"zz"}''\<close>

definition demo_parse :: "js_text \<Rightarrow> jsval option" where
  "demo_parse t =
     (if t = hello_text then Some (JObj [(''type'', JStr ''hello'')])
      else if t = full_A_text then Some (JObj [(''type'', JStr ''full''), (''payload'', JStr ''A'')])
      else if t = full_bad_text then Some (JObj [(''type'', JStr ''full''), (''payload'', JStr ''zz'')])
      else None)"

definition demo_stringify :: "jsval \<Rightarrow> js_text" where
  "demo_stringify v = js_lit (if v = docA_value then ''A.json'' else ''E.json'')"

definition demo_ext :: "demo_doc externals" where
  "demo_ext =
     \<lparr>JSON_parse = demo_parse,
      JSON_stringify = demo_stringify,
      Buffer_toString = map ucast,
      Buffer_byteLength = length,
      Automerge_from = demo_from,
      Automerge_save = demo_save,
      Automerge_load = demo_load,
      Automerge_merge = demo_merge,
      doc_value = demo_value,
      ws_send_throws = (\<lambda>c m. cid c = 9),
      fs_write_fails = (\<lambda>f t. None)\<rparr>"

text \<open>
  The same instance on a disk where the write that has to create the file raises after
  it has created it, empty; a write over a file that is there succeeds.
\<close>

definition demo_ext_bad_disk :: "demo_doc externals" where
  "demo_ext_bad_disk =
     demo_ext\<lparr>fs_write_fails := (\<lambda>f t. if f = Missing then Some (Content []) else None)\<rparr>"

definition c1 :: conn where
  "c1 = \<lparr>cid = 1, readyState = OPEN\<rparr>"

definition c2 :: conn where
  "c2 = \<lparr>cid = 2, readyState = OPEN\<rparr>"

definition c3 :: conn where
  "c3 = \<lparr>cid = 3, readyState = CLOSED\<rparr>"

definition c9 :: conn where
  "c9 = \<lparr>cid = 9, readyState = OPEN\<rparr>"

definition server0 :: "conn list \<Rightarrow> demo_doc server" where
  "server0 cs = \<lparr>doc = DocE, snapshot = Missing, clients = cs\<rparr>"

section \<open>Auxiliary facts\<close>




lemma WsSend_in_try_send:
  "WsSend c' m' ok \<in> set (try_send E c m [ConsoleLog l] failed) \<Longrightarrow> c' = c \<and> m' = m"
  "WsSend c' m' ok \<in> set (try_send E c m [] failed) \<Longrightarrow> c' = c \<and> m' = m"
  by (auto simp add: try_send_def split: if_splits)




lemma persistJson_events:
  "snd (persistJson E s) =
     (if fs_write_fails E (snapshot s) (JSON_stringify E (doc_value E (doc s))) = None
      then [FsWrite (JSON_stringify E (doc_value E (doc s))) True,
            ConsoleLog ''[persist] manifest.json saved'']
      else [FsWrite (JSON_stringify E (doc_value E (doc s))) False,
            ConsoleError ''[persist] write error:''])"
  by (simp add: persistJson_def Let_def split: option.splits)

lemma broadcast_loop_events:
  "fst (broadcast_loop E m cs n) =
     map (\<lambda>c. WsSend c m True)
       (takeWhile (\<lambda>c. \<not> ws_send_throws E c m) (filter (\<lambda>c. readyState c = OPEN) cs))
     @ (case dropWhile (\<lambda>c. \<not> ws_send_throws E c m) (filter (\<lambda>c. readyState c = OPEN) cs) of
          [] \<Rightarrow> []
        | c # rest \<Rightarrow> [WsSend c m False])"
  by (induction E m cs n rule: broadcast_loop.induct) (simp_all add: split_beta)

lemma broadcast_loop_result:
  "(snd (broadcast_loop E m cs n) = None) =
     (dropWhile (\<lambda>c. \<not> ws_send_throws E c m) (filter (\<lambda>c. readyState c = OPEN) cs) \<noteq> [])"
  by (induction E m cs n rule: broadcast_loop.induct) (simp_all add: split_beta)

lemma broadcast_eq:
  "broadcast E cs m =
     map (\<lambda>c. WsSend c m True)
       (takeWhile (\<lambda>c. \<not> ws_send_throws E c m) (filter (\<lambda>c. readyState c = OPEN) cs))
     @ (case dropWhile (\<lambda>c. \<not> ws_send_throws E c m) (filter (\<lambda>c. readyState c = OPEN) cs) of
          [] \<Rightarrow> [ConsoleLog ''[broadcast] sent to clients'']
        | c # rest \<Rightarrow> [WsSend c m False, ConsoleError ''[broadcast] failed:''])"
proof -
  define good where
    "good = takeWhile (\<lambda>c. \<not> ws_send_throws E c m) (filter (\<lambda>c. readyState c = OPEN) cs)"
  define bad where
    "bad = dropWhile (\<lambda>c. \<not> ws_send_throws E c m) (filter (\<lambda>c. readyState c = OPEN) cs)"
  obtain evs r where br: "broadcast_loop E m cs 0 = (evs, r)"
    by (cases "broadcast_loop E m cs 0")
  have e: "evs = map (\<lambda>c. WsSend c m True) good @ (case bad of [] \<Rightarrow> [] | c # rest \<Rightarrow> [WsSend c m False])"
    using br broadcast_loop_events [of E m cs 0] by (simp add: good_def bad_def)
  have r: "(r = None) = (bad \<noteq> [])"
    using br broadcast_loop_result [of E m cs 0] by (simp add: bad_def)
  have "broadcast E cs m =
          map (\<lambda>c. WsSend c m True) good
          @ (case bad of
               [] \<Rightarrow> [ConsoleLog ''[broadcast] sent to clients'']
             | c # rest \<Rightarrow> [WsSend c m False, ConsoleError ''[broadcast] failed:''])"
  proof (cases bad)
    case Nil
    with r obtain k where "r = Some k" by auto
    with Nil e br show ?thesis by (simp add: broadcast_def)
  next
    case (Cons c rest)
    with r have "r = None" by simp
    with Cons e br show ?thesis by (simp add: broadcast_def)
  qed
  then show ?thesis
    by (simp only: good_def bad_def)
qed

lemma WsSend_in_broadcast:
  "WsSend c' m' ok \<in> set (broadcast E cs m) \<Longrightarrow> m' = m"
  by (auto simp add: broadcast_eq split: list.splits)


lemma on_message_merge_raises:
  assumes "JSON_parse E (frame_text E data) = Some msg"
    and "msg_field msg ''type'' = Some (JStr ''full'')"
    and "Automerge_load E (msg_field msg ''payload'') = Some incoming"
    and "Automerge_merge E (doc s) incoming = None"
  shows "on_message E now s ws data = Inl (Aborted (recv_echo E ws (frame_text E data)))"
  using assms by (simp add: on_message_def)





lemma WsSend_in_persistJson: "WsSend c m ok \<notin> set (snd (persistJson E s))"
  by (simp add: persistJson_events)


lemma http_handler_unreadable:
  "pathname req = ''/'' \<or> pathname req = ''/client.html'' \<Longrightarrow>
   http_handler E Unreadable req = Inl Uncaught"
  by (simp add: http_handler_def)

lemmas demo_simps =
  demo_ext_def demo_ext_bad_disk_def demo_parse_def demo_stringify_def demo_load_def
  demo_from_def hello_text_def full_A_text_def full_bad_text_def js_lit_def frame_text_def
  msg_field_def c1_def c2_def c3_def c9_def server0_def docA_value_def empty_shape_def

lemmas run_simps =
  on_message_def run_events_def recv_echo_def try_send_def persistJson_def broadcast_def
  full_msg_def debug_echo_msg_def persisted_msg_def qText_def opt_prop_def opt_index0_def
  effects_def Let_def



section \<open>The \<open>full\<close> branch: merge, persist, acknowledge, broadcast\<close>




section \<open>A payload that Automerge cannot load\<close>

text \<open>
  Claim C2. When a frame parses to a message of type \<open>full\<close> and \<open>Automerge.load\<close> raises
  on its payload, the handler returns after logging: the server state (document,
  snapshot, registry) is what it was, \<open>writeFileSync\<close> is not called, and the only
  \<open>send\<close> is the \<open>debug_echo\<close>; no \<open>persisted\<close> and no \<open>full\<close> message is sent.
\<close>

theorem bad_payload_is_discarded:
  assumes parse: "JSON_parse E (frame_text E data) = Some msg"
    and type: "msg_field msg ''type'' = Some (JStr ''full'')"
    and load: "Automerge_load E (msg_field msg ''payload'') = None"
  shows "\<exists>evs. on_message E now s ws data = Inr (s, evs)
       \<and> effects evs =
           [WsSend ws (debug_echo_msg (length (frame_text E data)))
              (\<not> ws_send_throws E ws (debug_echo_msg (length (frame_text E data))))]
       \<and> sends_of_type ''persisted'' evs = []
       \<and> sends_of_type ''full'' evs = []
       \<and> ConsoleError ''[recv] load(string) failed:'' \<in> set evs"
  using parse type load
  by (simp add: on_message_def recv_echo_def try_send_def effects_def debug_echo_msg_def
      Let_def)

text \<open>Claim C2, the theorem at a concrete run: the payload \<open>zz\<close> is no saved document.\<close>

theorem bad_payload_is_discarded_witness:
  "JSON_parse demo_ext (frame_text demo_ext (NotBuffer full_bad_text)) =
       Some (JObj [(''type'', JStr ''full''), (''payload'', JStr ''zz'')])
   \<and> msg_field (JObj [(''type'', JStr ''full''), (''payload'', JStr ''zz'')]) ''type'' =
       Some (JStr ''full'')
   \<and> Automerge_load demo_ext
       (msg_field (JObj [(''type'', JStr ''full''), (''payload'', JStr ''zz'')]) ''payload'') = None
   \<and> on_message demo_ext ''2026-01-01T00:00:00.000Z'' (server0 [c1, c2]) c2
        (NotBuffer full_bad_text) =
       Inr (server0 [c1, c2],
            [ConsoleLog ''[recv]'', WsSend c2 (debug_echo_msg 30) True,
             ConsoleError ''[recv] load(string) failed:''])"
proof -
  let ?msg = "JObj [(''type'', JStr ''full''), (''payload'', JStr ''zz'')]"
  have parse: "JSON_parse demo_ext (frame_text demo_ext (NotBuffer full_bad_text)) = Some ?msg"
    by (simp add: demo_simps)
  have type: "msg_field ?msg ''type'' = Some (JStr ''full'')"
    by (simp add: demo_simps)
  have load: "Automerge_load demo_ext (msg_field ?msg ''payload'') = None"
    by (simp add: demo_simps)
  have run: "on_message demo_ext ''2026-01-01T00:00:00.000Z'' (server0 [c1, c2]) c2
        (NotBuffer full_bad_text) =
       Inr (server0 [c1, c2],
            [ConsoleLog ''[recv]'', WsSend c2 (debug_echo_msg 30) True,
             ConsoleError ''[recv] load(string) failed:''])"
    by (simp add: run_simps demo_simps)
  from bad_payload_is_discarded [OF parse type load, of "''2026-01-01T00:00:00.000Z''"
      "server0 [c1, c2]" c2]
  show ?thesis
    by - (intro conjI parse type load run)
qed

section \<open>A frame that is not JSON\<close>

text \<open>
  Claim C3, as amended. When \<open>JSON.parse\<close> raises on the text of a frame, the handler
  logs the error and returns: the server state is what it was, \<open>writeFileSync\<close> is not
  called, and the only \<open>send\<close> is the one \<open>debug_echo\<close> to the sender, made before the
  text is parsed. No other connection is sent anything.
\<close>

theorem invalid_json_only_echo:
  assumes parse: "JSON_parse E (frame_text E data) = None"
  shows "\<exists>evs. on_message E now s ws data = Inr (s, evs)
       \<and> effects evs =
           [WsSend ws (debug_echo_msg (length (frame_text E data)))
              (\<not> ws_send_throws E ws (debug_echo_msg (length (frame_text E data))))]
       \<and> ConsoleError ''[recv] invalid JSON'' \<in> set evs"
  using parse
  by (simp add: on_message_def recv_echo_def try_send_def effects_def Let_def)

text \<open>Claim C3, the amended theorem at a concrete run: the frame is one opening brace.\<close>

theorem invalid_json_only_echo_witness:
  "JSON_parse demo_ext (frame_text demo_ext (NotBuffer (js_lit ''{''))) = None
   \<and> on_message demo_ext ''2026-01-01T00:00:00.000Z'' (server0 [c1, c2]) c1
        (NotBuffer (js_lit ''{'')) =
       Inr (server0 [c1, c2],
            [ConsoleLog ''[recv]'', WsSend c1 (debug_echo_msg 1) True,
             ConsoleError ''[recv] invalid JSON''])"
proof -
  have parse: "JSON_parse demo_ext (frame_text demo_ext (NotBuffer (js_lit ''{''))) = None"
    by (simp add: demo_simps)
  have run: "on_message demo_ext ''2026-01-01T00:00:00.000Z'' (server0 [c1, c2]) c1
        (NotBuffer (js_lit ''{'')) =
       Inr (server0 [c1, c2],
            [ConsoleLog ''[recv]'', WsSend c1 (debug_echo_msg 1) True,
             ConsoleError ''[recv] invalid JSON''])"
    by (simp add: run_simps demo_simps)
  from invalid_json_only_echo [OF parse, of "''2026-01-01T00:00:00.000Z''" "server0 [c1, c2]" c1]
  show ?thesis
    by - (intro conjI parse run)
qed

text \<open>
  Claim C3 as stated says that the sender gets no reply of any kind. The frame of one
  opening brace is not JSON, and the sender is sent a \<open>debug_echo\<close> with its length.
\<close>

theorem invalid_json_counterexample:
  "JSON_parse demo_ext (frame_text demo_ext (NotBuffer (js_lit ''{''))) = None
   \<and> sends_of_type ''debug_echo'' (run_events (on_message demo_ext ''2026-01-01T00:00:00.000Z''
        (server0 [c1, c2]) c1 (NotBuffer (js_lit ''{'')))) = [(c1, debug_echo_msg 1)]
   \<and> effects (run_events (on_message demo_ext ''2026-01-01T00:00:00.000Z''
        (server0 [c1, c2]) c1 (NotBuffer (js_lit ''{'')))) = [WsSend c1 (debug_echo_msg 1) True]"
  by (simp add: on_message_def run_events_def demo_simps try_send_def recv_echo_def
      debug_echo_msg_def effects_def)

section \<open>The broadcast loop\<close>

text \<open>
  Claim C4, as amended. The broadcast visits the registry in order, skips every
  connection that is not open and sends the message to the open ones, up to the first
  \<open>send\<close> that raises. That exception ends the loop: the connections after it are sent
  nothing. It is caught and logged, so nothing is raised to the caller.
\<close>

theorem broadcast_stops_at_first_failure:
  "broadcast E cs m =
     map (\<lambda>c. WsSend c m True)
       (takeWhile (\<lambda>c. \<not> ws_send_throws E c m) (filter (\<lambda>c. readyState c = OPEN) cs))
     @ (case dropWhile (\<lambda>c. \<not> ws_send_throws E c m) (filter (\<lambda>c. readyState c = OPEN) cs) of
          [] \<Rightarrow> [ConsoleLog ''[broadcast] sent to clients'']
        | c # rest \<Rightarrow> [WsSend c m False, ConsoleError ''[broadcast] failed:''])"
  by (rule broadcast_eq)

text \<open>
  Claim C4, the amended theorem at a concrete registry: a closed connection, an open
  one, the one whose \<open>send\<close> raises, and an open one that is not reached.
\<close>

theorem broadcast_stops_at_first_failure_witness:
  "broadcast demo_ext [c3, c1, c9, c2] (full_msg ''A'') =
     [WsSend c1 (full_msg ''A'') True, WsSend c9 (full_msg ''A'') False,
      ConsoleError ''[broadcast] failed:'']"
  using broadcast_stops_at_first_failure [of demo_ext "[c3, c1, c9, c2]" "full_msg ''A''"]
  by (simp add: demo_simps)

text \<open>
  Claim C4 as stated says that a failing \<open>send\<close> never keeps the message from the
  remaining open connections. Connection 2 is open and sending to it does not raise,
  but it comes after connection 9 and is sent nothing.
\<close>

theorem broadcast_counterexample:
  "readyState c2 = OPEN \<and> \<not> ws_send_throws demo_ext c2 (full_msg ''E'')
   \<and> broadcast demo_ext [c9, c2] (full_msg ''E'') =
       [WsSend c9 (full_msg ''E'') False, ConsoleError ''[broadcast] failed:'']"
  by (simp add: broadcast_def demo_simps)

section \<open>The \<open>hello\<close> branch\<close>

text \<open>
  Claim C5, as amended. When a frame parses to a message of type \<open>hello\<close>, the handler
  calls \<open>send\<close> once on the sender with a \<open>full\<close> message whose payload is
  \<open>Automerge.save\<close> of the document as it is at that moment, and returns with the server
  state, the document included, as it was. The reply is sent when that call returns;
  when it raises, the failure is logged and no reply is sent.
\<close>

theorem hello_reply:
  assumes parse: "JSON_parse E (frame_text E data) = Some msg"
    and type: "msg_field msg ''type'' = Some (JStr ''hello'')"
  shows "(let echo = JObj [(''type'', JStr ''debug_echo''),
                           (''bytes'', JNum (int (length (frame_text E data))))];
              reply = JObj [(''type'', JStr ''full''),
                            (''payload'', JStr (Automerge_save E (doc s)))]
          in on_message E now s ws data =
               Inr (s,
                 ConsoleLog ''[recv]''
                 # (if ws_send_throws E ws echo
                    then [WsSend ws echo False, ConsoleError ''[debug_echo] failed:'']
                    else [WsSend ws echo True])
                 @ (if ws_send_throws E ws reply
                    then [WsSend ws reply False, ConsoleError ''[hello] failed:'']
                    else [WsSend ws reply True, ConsoleLog ''[hello] FULL sent on hello''])))"
  using parse type
  by (simp add: on_message_def recv_echo_def try_send_def full_msg_def debug_echo_msg_def
      Let_def)

text \<open>Claim C5, the amended theorem at a concrete run.\<close>

theorem hello_reply_witness:
  "JSON_parse demo_ext (frame_text demo_ext (NotBuffer hello_text)) =
       Some (JObj [(''type'', JStr ''hello'')])
   \<and> msg_field (JObj [(''type'', JStr ''hello'')]) ''type'' = Some (JStr ''hello'')
   \<and> on_message demo_ext ''2026-01-01T00:00:00.000Z'' (server0 [c1, c2]) c2
        (NotBuffer hello_text) =
       Inr (server0 [c1, c2],
         [ConsoleLog ''[recv]'',
          WsSend c2 (JObj [(''type'', JStr ''debug_echo''), (''bytes'', JNum 16)]) True,
          WsSend c2 (JObj [(''type'', JStr ''full''), (''payload'', JStr ''E'')]) True,
          ConsoleLog ''[hello] FULL sent on hello''])"
proof -
  let ?msg = "JObj [(''type'', JStr ''hello'')]"
  have parse: "JSON_parse demo_ext (frame_text demo_ext (NotBuffer hello_text)) = Some ?msg"
    by (simp add: demo_simps)
  have type: "msg_field ?msg ''type'' = Some (JStr ''hello'')"
    by (simp add: demo_simps)
  have run: "on_message demo_ext ''2026-01-01T00:00:00.000Z'' (server0 [c1, c2]) c2
        (NotBuffer hello_text) =
       Inr (server0 [c1, c2],
         [ConsoleLog ''[recv]'',
          WsSend c2 (JObj [(''type'', JStr ''debug_echo''), (''bytes'', JNum 16)]) True,
          WsSend c2 (JObj [(''type'', JStr ''full''), (''payload'', JStr ''E'')]) True,
          ConsoleLog ''[hello] FULL sent on hello''])"
    using hello_reply [OF parse type, where now = "''2026-01-01T00:00:00.000Z''"
        and s = "server0 [c1, c2]" and ws = c2]
    by (simp add: Let_def demo_simps)
  show ?thesis
    by (intro conjI parse type run)
qed

text \<open>
  Claim C5 as stated says that every \<open>hello\<close> is answered. Connection 9 says \<open>hello\<close>;
  the \<open>send\<close> of the reply raises, which is caught and logged, and no \<open>full\<close> message (no
  message at all) is sent to it.
\<close>

theorem hello_reply_counterexample:
  "JSON_parse demo_ext (frame_text demo_ext (NotBuffer hello_text)) =
       Some (JObj [(''type'', JStr ''hello'')])
   \<and> on_message demo_ext ''2026-01-01T00:00:00.000Z'' (server0 [c1, c9]) c9
        (NotBuffer hello_text) =
       Inr (server0 [c1, c9],
         [ConsoleLog ''[recv]'',
          WsSend c9 (JObj [(''type'', JStr ''debug_echo''), (''bytes'', JNum 16)]) False,
          ConsoleError ''[debug_echo] failed:'',
          WsSend c9 (JObj [(''type'', JStr ''full''), (''payload'', JStr ''E'')]) False,
          ConsoleError ''[hello] failed:''])"
  by (simp add: run_simps demo_simps)

section \<open>The \<open>debug_echo\<close>\<close>

text \<open>
  Claim C10, as amended. For every frame, whatever its text, the handler starts with
  the \<open>[recv]\<close> log line and one call of \<open>send\<close> on the sender with a \<open>debug_echo\<close> message
  whose \<open>bytes\<close> is the length of the decoded text: the text of the Buffer decoded as
  UTF-8, or the data turned into a string. This comes before the text is parsed, and
  every later \<open>send\<close> of the run carries a \<open>full\<close> or a \<open>persisted\<close> message, so no second
  \<open>debug_echo\<close> is sent. The one \<open>debug_echo\<close> is sent when the call returns; when it
  raises, the failure is logged, no \<open>debug_echo\<close> is sent, and handling goes on.
\<close>

theorem debug_echo_first:
  "(let text = (case data of Buffer b \<Rightarrow> Buffer_toString E b | NotBuffer t \<Rightarrow> t);
        echo = JObj [(''type'', JStr ''debug_echo''), (''bytes'', JNum (int (length text)))]
    in \<exists>rest. run_events (on_message E now s ws data) =
                 ConsoleLog ''[recv]''
                 # (if ws_send_throws E ws echo
                    then [WsSend ws echo False, ConsoleError ''[debug_echo] failed:'']
                    else [WsSend ws echo True])
                 @ rest
             \<and> (\<forall>c m ok. WsSend c m ok \<in> set rest \<longrightarrow>
                   (\<exists>p. m = JObj [(''type'', JStr ''full''), (''payload'', JStr p)])
                   \<or> (\<exists>q. m = JObj [(''type'', JStr ''persisted''),
                                      (''payload'', JObj [(''at'', JStr now),
                                                          (''questionText'', q)])])))"
proof -
  obtain rest where r: "run_events (on_message E now s ws data) =
        recv_echo E ws (frame_text E data) @ rest"
    and sends: "\<forall>c m ok. WsSend c m ok \<in> set rest \<longrightarrow>
           (\<exists>p. m = full_msg p) \<or> (\<exists>q. c = ws \<and> m = persisted_msg now q)"
  proof -
    have "\<exists>rest. run_events (on_message E now s ws data) =
              recv_echo E ws (frame_text E data) @ rest
            \<and> (\<forall>c m ok. WsSend c m ok \<in> set rest \<longrightarrow>
                  (\<exists>p. m = full_msg p) \<or> (\<exists>q. c = ws \<and> m = persisted_msg now q))"
      by (auto simp add: on_message_def run_events_def split_beta Let_def WsSend_in_persistJson
          split: option.splits dest: WsSend_in_try_send WsSend_in_broadcast)
    then show ?thesis
      using that by blast
  qed
  have "\<forall>c m ok. WsSend c m ok \<in> set rest \<longrightarrow>
           (\<exists>p. m = JObj [(''type'', JStr ''full''), (''payload'', JStr p)])
           \<or> (\<exists>q. m = JObj [(''type'', JStr ''persisted''),
                              (''payload'', JObj [(''at'', JStr now), (''questionText'', q)])])"
    using sends by (simp add: full_msg_def persisted_msg_def) blast
  then show ?thesis
    using r by (simp add: Let_def recv_echo_def try_send_def frame_text_def debug_echo_msg_def)
qed

text \<open>Claim C10, the amended theorem at a concrete run: a Buffer of three bytes that is not JSON.\<close>

theorem debug_echo_first_witness:
  "effects (run_events (on_message demo_ext ''2026-01-01T00:00:00.000Z''
       (server0 [c1, c2]) c2 (Buffer [0x61, 0x62, 0x63]))) =
     [WsSend c2 (JObj [(''type'', JStr ''debug_echo''), (''bytes'', JNum 3)]) True]"
proof -
  have run: "effects (run_events (on_message demo_ext ''2026-01-01T00:00:00.000Z''
       (server0 [c1, c2]) c2 (Buffer [0x61, 0x62, 0x63]))) =
     [WsSend c2 (JObj [(''type'', JStr ''debug_echo''), (''bytes'', JNum 3)]) True]"
    by (simp add: run_simps demo_simps)
  from debug_echo_first [where E = demo_ext and now = "''2026-01-01T00:00:00.000Z''"
      and s = "server0 [c1, c2]" and ws = c2 and data = "Buffer [0x61, 0x62, 0x63]"]
  show ?thesis
    by - (rule run)
qed

text \<open>
  Claim C10 as stated says that every frame is answered with one \<open>debug_echo\<close>.
  Connection 9 sends a frame; the \<open>send\<close> of the echo raises, which is caught and
  logged, and no \<open>debug_echo\<close> is sent.
\<close>

theorem debug_echo_counterexample:
  "on_message demo_ext ''2026-01-01T00:00:00.000Z'' (server0 [c1, c9]) c9
       (NotBuffer (js_lit ''{'')) =
     Inr (server0 [c1, c9],
       [ConsoleLog ''[recv]'',
        WsSend c9 (JObj [(''type'', JStr ''debug_echo''), (''bytes'', JNum 1)]) False,
        ConsoleError ''[debug_echo] failed:'',
        ConsoleError ''[recv] invalid JSON''])"
  by (simp add: run_simps demo_simps)

section \<open>A write to the snapshot that raises\<close>



section \<open>Startup\<close>

text \<open>
  Claim C7, as amended. When manifest.json is absent, cannot be read, or does not parse
  into a document, \<open>loadInitial\<close> does not raise: the document becomes
  \<open>Automerge.from\<close> of the fixed skeleton and \<open>writeFileSync\<close> is called once with it.
  When that write succeeds the snapshot file holds the skeleton document. When it
  raises, the error is logged and the file is whatever the failed write left behind,
  which need not be a valid document. (\<open>Automerge.from\<close> of the skeleton is called outside
  \<open>try\<close> and is taken to succeed.)
\<close>

theorem load_falls_back_to_empty_shape:
  assumes unparsed:
      "f = Missing \<or> f = Unreadable
       \<or> (\<exists>t. f = Content t \<and> JSON_parse E t = None)
       \<or> (\<exists>t seed. f = Content t \<and> JSON_parse E t = Some seed \<and> Automerge_from E seed = None)"
    and skeleton:
      "Automerge_from E
         (JObj [(''pages'', JArr []), (''tiles'', JArr []), (''merges'', JArr []),
                (''actions'', JArr []), (''databases'', JArr []), (''connections'', JArr []),
                (''styles'', JObj [(''theme'', JObj [])])]) = Some d0"
  shows "(let content = JSON_stringify E (doc_value E d0);
              found = (if f = Missing
                       then [ConsoleLog ''[load] no manifest.json; starting empty'']
                       else [ConsoleLog ''[load] found manifest.json'',
                             ConsoleError ''[load] parse error; starting empty:''])
          in loadInitial E f =
               (case fs_write_fails E f content of
                  None \<Rightarrow>
                    Inr (\<lparr>doc = d0, snapshot = Content content, clients = []\<rparr>,
                         found @ [FsWrite content True,
                                  ConsoleLog ''[persist] manifest.json saved''])
                | Some left \<Rightarrow>
                    Inr (\<lparr>doc = d0, snapshot = left, clients = []\<rparr>,
                         found @ [FsWrite content False,
                                  ConsoleError ''[persist] write error:''])))"
proof -
  have seed: "f \<noteq> Missing \<Longrightarrow> load_seed E f = None"
    using unparsed by (auto simp add: load_seed_def)
  have sk: "Automerge_from E empty_shape = Some d0"
    using skeleton by (simp add: empty_shape_def)
  show ?thesis
  proof (cases "f = Missing")
    case True
    then show ?thesis
      using sk by (simp add: loadInitial_def start_empty_def persistJson_def Let_def
          split: option.splits)
  next
    case False
    then show ?thesis
      using sk seed by (simp add: loadInitial_def start_empty_def persistJson_def Let_def
          split: option.splits)
  qed
qed

text \<open>Claim C7, the amended theorem at a concrete start: the file holds one opening brace.\<close>

theorem load_falls_back_to_empty_shape_witness:
  "JSON_parse demo_ext (js_lit ''{'') = None
   \<and> Automerge_from demo_ext
         (JObj [(''pages'', JArr []), (''tiles'', JArr []), (''merges'', JArr []),
                (''actions'', JArr []), (''databases'', JArr []), (''connections'', JArr []),
                (''styles'', JObj [(''theme'', JObj [])])]) = Some DocE
   \<and> loadInitial demo_ext (Content (js_lit ''{'')) =
       Inr (\<lparr>doc = DocE, snapshot = Content (js_lit ''E.json''), clients = []\<rparr>,
            [ConsoleLog ''[load] found manifest.json'',
             ConsoleError ''[load] parse error; starting empty:'',
             FsWrite (js_lit ''E.json'') True,
             ConsoleLog ''[persist] manifest.json saved''])"
proof -
  have parse: "JSON_parse demo_ext (js_lit ''{'') = None"
    by (simp add: demo_simps)
  have unparsed: "Content (js_lit ''{'') = Missing \<or> Content (js_lit ''{'') = Unreadable
       \<or> (\<exists>t. Content (js_lit ''{'') = Content t \<and> JSON_parse demo_ext t = None)
       \<or> (\<exists>t seed. Content (js_lit ''{'') = Content t \<and> JSON_parse demo_ext t = Some seed
             \<and> Automerge_from demo_ext seed = None)"
    using parse by simp
  have skeleton: "Automerge_from demo_ext
         (JObj [(''pages'', JArr []), (''tiles'', JArr []), (''merges'', JArr []),
                (''actions'', JArr []), (''databases'', JArr []), (''connections'', JArr []),
                (''styles'', JObj [(''theme'', JObj [])])]) = Some DocE"
    by (simp add: demo_simps)
  have run: "loadInitial demo_ext (Content (js_lit ''{'')) =
       Inr (\<lparr>doc = DocE, snapshot = Content (js_lit ''E.json''), clients = []\<rparr>,
            [ConsoleLog ''[load] found manifest.json'',
             ConsoleError ''[load] parse error; starting empty:'',
             FsWrite (js_lit ''E.json'') True,
             ConsoleLog ''[persist] manifest.json saved''])"
    using load_falls_back_to_empty_shape [OF unparsed skeleton]
    by (simp add: Let_def demo_simps)
  show ?thesis
    by (intro conjI parse skeleton run)
qed

text \<open>
  Claim C7 as stated says that after startup the snapshot file always reflects a valid
  document. With no manifest.json and a write that raises after creating the file,
  startup succeeds and the file is empty: it does not parse.
\<close>

theorem load_snapshot_counterexample:
  "loadInitial demo_ext_bad_disk Missing =
     Inr (\<lparr>doc = DocE, snapshot = Content [], clients = []\<rparr>,
          [ConsoleLog ''[load] no manifest.json; starting empty'',
           FsWrite (js_lit ''E.json'') False,
           ConsoleError ''[persist] write error:''])
   \<and> JSON_parse demo_ext_bad_disk [] = None"
  by (simp add: loadInitial_def start_empty_def persistJson_def demo_simps Let_def)

section \<open>The \<open>persisted\<close> acknowledgment\<close>




section \<open>HTTP requests\<close>

text \<open>
  Claim C9, as amended. Whatever the method, a request whose path (the URL up to the
  first question mark, \<open>/\<close> when there is no URL) is \<open>/\<close> or \<open>/client.html\<close> is answered,
  when client.html is absent or can be read, with status 200 and the four no-cache
  headers: with the text of client.html and its byte length when the file is there,
  with a fixed placeholder text when it is absent. A request for any other path is
  answered with status 404, \<open>Cache-Control: no-store\<close> and the text \<open>Not found\<close>.
\<close>

theorem http_page_or_not_found:
  "(let url = (case req_url req of None \<Rightarrow> ''/'' | Some u \<Rightarrow> if u = [] then ''/'' else u);
        path = takeWhile (\<lambda>c. c \<noteq> CHR ''?'') url;
        no_cache = [(''Content-Type'', HStr ''text/html; charset=utf-8''),
                    (''Cache-Control'',
                     HStr ''no-store, no-cache, must-revalidate, proxy-revalidate''),
                    (''Pragma'', HStr ''no-cache''),
                    (''Expires'', HStr ''0'')]
    in (req_url req = Some ''/'' \<longrightarrow> path = ''/'')
     \<and> (path = ''/'' \<or> path = ''/client.html'' \<longrightarrow>
          http_handler E Missing req =
            Inr \<lparr>status = 200, headers = no_cache,
                 body = map of_char
                   ''Place client.html next to server.js (server is running).''\<rparr>
          \<and> (\<forall>html. http_handler E (Content html) req =
                Inr \<lparr>status = 200,
                     headers = no_cache @ [(''Content-Length'', HNum (Buffer_byteLength E html))],
                     body = html\<rparr>))
     \<and> (path \<noteq> ''/'' \<and> path \<noteq> ''/client.html'' \<longrightarrow>
          (\<forall>f. http_handler E f req =
                Inr \<lparr>status = 404, headers = [(''Cache-Control'', HStr ''no-store'')],
                     body = map of_char ''Not found''\<rparr>)))"
  by (simp add: http_handler_def pathname_def no_cache_headers_def js_lit_def Let_def)

text \<open>Claim C9, the amended theorem at two concrete requests.\<close>

theorem http_page_or_not_found_witness:
  "http_handler demo_ext (Content (js_lit ''<html></html>''))
       \<lparr>req_method = ''GET'', req_url = Some ''/?v=2''\<rparr> =
     Inr \<lparr>status = 200,
          headers = [(''Content-Type'', HStr ''text/html; charset=utf-8''),
                     (''Cache-Control'',
                      HStr ''no-store, no-cache, must-revalidate, proxy-revalidate''),
                     (''Pragma'', HStr ''no-cache''),
                     (''Expires'', HStr ''0''),
                     (''Content-Length'', HNum 13)],
          body = js_lit ''<html></html>''\<rparr>
   \<and> http_handler demo_ext Missing \<lparr>req_method = ''GET'', req_url = Some ''/favicon.ico''\<rparr> =
     Inr \<lparr>status = 404, headers = [(''Cache-Control'', HStr ''no-store'')],
          body = js_lit ''Not found''\<rparr>"
  using http_page_or_not_found [where req = "\<lparr>req_method = ''GET'', req_url = Some ''/?v=2''\<rparr>"
      and E = demo_ext]
    http_page_or_not_found [where req = "\<lparr>req_method = ''GET'', req_url = Some ''/favicon.ico''\<rparr>"
      and E = demo_ext]
  by (simp add: Let_def demo_ext_def js_lit_def)

text \<open>
  Claim C9 as stated says that every path other than \<open>/\<close> gets a not-found response.
  The path \<open>/client.html\<close> gets the page.
\<close>

theorem http_other_path_counterexample:
  "http_handler demo_ext Missing \<lparr>req_method = ''GET'', req_url = Some ''/client.html''\<rparr> =
     Inr \<lparr>status = 200,
          headers = [(''Content-Type'', HStr ''text/html; charset=utf-8''),
                     (''Cache-Control'',
                      HStr ''no-store, no-cache, must-revalidate, proxy-revalidate''),
                     (''Pragma'', HStr ''no-cache''),
                     (''Expires'', HStr ''0'')],
          body = js_lit ''Place client.html next to server.js (server is running).''\<rparr>"
  by (simp add: http_handler_def pathname_def no_cache_headers_def)

end
